theory Spec2Isabelle
  imports Main
begin

section \<open>Python values, errors and dates\<close>

text \<open>
  The orchestrator passes plain Python data around: every result is a \<open>Dict\<close>, the
  parsed logs are a \<open>Dict\<close>, the tool catalogs are lists of nested \<open>Dict\<close> literals.
  A Python value is one of the JSON-like shapes below. A dictionary keeps its items in
  insertion order, as a list of (key, value) pairs with string keys. A string is the
  list of its characters. Numbers are integers: no claim depends on the kind of a number.
\<close>

datatype pyval =
    PNone
  | PBool bool
  | PInt int
  | PStr string
  | PList "pyval list"
  | PDict "(string \<times> pyval) list"

text \<open>
  The exceptions the modelled code can raise itself (\<open>KeyError\<close> and \<open>TypeError\<close> on
  subscripting, \<open>OverflowError\<close> from date arithmetic, \<open>ValueError\<close> from unpacking), the
  conditions of the error taxonomy, and \<open>OtherError\<close> for whatever else a collaborator
  raises.
\<close>

datatype error =
    KeyError string
  | TypeError
  | ValueError
  | OverflowError
  | InvalidRequest
  | EvidenceUnavailable string
  | ModelUnavailable
  | ModelTimeout
  | OtherError string

definition bindE :: "error + 'a \<Rightarrow> ('a \<Rightarrow> error + 'b) \<Rightarrow> error + 'b" where
  "bindE m f = (case m of Inl e \<Rightarrow> Inl e | Inr x \<Rightarrow> f x)"

text \<open>Truth value testing, as \<open>if v:\<close> does it.\<close>

fun truthy :: "pyval \<Rightarrow> bool" where
  "truthy PNone = False"
| "truthy (PBool b) = b"
| "truthy (PInt i) = (i \<noteq> 0)"
| "truthy (PStr s) = (s \<noteq> [])"
| "truthy (PList xs) = (xs \<noteq> [])"
| "truthy (PDict kvs) = (kvs \<noteq> [])"

text \<open>
  \<open>v[key]\<close> with a string key: a dictionary looks the key up and raises \<open>KeyError\<close>
  when it is missing; every other value raises \<open>TypeError\<close> (a string or a list does
  not take a string index, \<open>None\<close> and numbers are not subscriptable).
\<close>

fun py_getitem :: "pyval \<Rightarrow> string \<Rightarrow> error + pyval" where
  "py_getitem (PDict kvs) key =
     (case map_of kvs key of None \<Rightarrow> Inl (KeyError key) | Some v \<Rightarrow> Inr v)"
| "py_getitem v key = Inl TypeError"

text \<open>
  \<open>v[:n]\<close> for a non-negative \<open>n\<close>: a list or a string gives its first \<open>n\<close> items (all
  of them when it is shorter); a dictionary, \<open>None\<close> and numbers raise (a dictionary
  raises \<open>TypeError\<close> before Python 3.12 and \<open>KeyError\<close> from 3.12 on: an error
  either way).
\<close>

fun py_slice_to :: "pyval \<Rightarrow> nat \<Rightarrow> error + pyval" where
  "py_slice_to (PList xs) n = Inr (PList (take n xs))"
| "py_slice_to (PStr s) n = Inr (PStr (take n s))"
| "py_slice_to v n = Inl TypeError"

text \<open>\<open>len(v)\<close> of a sized value.\<close>

fun py_len :: "pyval \<Rightarrow> error + nat" where
  "py_len (PList xs) = Inr (length xs)"
| "py_len (PStr s) = Inr (length s)"
| "py_len (PDict kvs) = Inr (length kvs)"
| "py_len v = Inl TypeError"

text \<open>
  \<open>d[k] = v\<close> on an insertion-ordered dictionary: an existing key keeps its place and
  takes the new value, a new key goes to the end.
\<close>

fun dict_set :: "string \<Rightarrow> pyval \<Rightarrow> (string \<times> pyval) list \<Rightarrow> (string \<times> pyval) list" where
  "dict_set k v [] = [(k, v)]"
| "dict_set k v ((k', v') # kvs) =
     (if k = k' then (k, v) # kvs else (k', v') # dict_set k v kvs)"

text \<open>
  \<open>{**a, **b}\<close>: the items of \<open>a\<close>, then those of \<open>b\<close> in order, a key of \<open>b\<close> overriding
  the same key of \<open>a\<close>. Both operands must be mappings, else \<open>TypeError\<close>.
\<close>

fun py_merge :: "pyval \<Rightarrow> pyval \<Rightarrow> error + pyval" where
  "py_merge (PDict a) (PDict b) = Inr (PDict (fold (\<lambda>(k, v). dict_set k v) b a))"
| "py_merge a b = Inl TypeError"

text \<open>
  A \<open>datetime\<close> is the number of microseconds since \<open>datetime.min\<close>
  (0001-01-01T00:00:00); \<open>datetime.max\<close> is the last microsecond of 9999-12-31, day number
  3652059. Subtracting a \<open>timedelta\<close> raises \<open>OverflowError\<close> when the result leaves
  that range.
\<close>

type_synonym datetime = int

definition us_per_day :: int where
  "us_per_day = 86400000000"

definition datetime_min :: datetime where
  "datetime_min = 0"

definition datetime_max :: datetime where
  "datetime_max = 3652059 * us_per_day - 1"

definition timedelta_days :: "int \<Rightarrow> int" where
  "timedelta_days n = n * us_per_day"

definition datetime_sub :: "datetime \<Rightarrow> int \<Rightarrow> error + datetime" where
  "datetime_sub t delta =
     (if t - delta < datetime_min \<or> datetime_max < t - delta then Inl OverflowError
      else Inr (t - delta))"

text \<open>The calendar day of a \<open>datetime\<close> (days since 0001-01-01) and its time of day.\<close>

definition day_of :: "datetime \<Rightarrow> int" where
  "day_of t = t div us_per_day"

definition time_of_day :: "datetime \<Rightarrow> int" where
  "time_of_day t = t mod us_per_day"

section \<open>Requests\<close>

datatype AgentMode = ISSUE_DETECTION | FULL_DIAGNOSIS | CUSTOM_QUERY

record AgentRequest =
  mode :: AgentMode
  system :: string
  date :: "datetime option"
  specific_query :: "string option"

section \<open>The data access layer\<close>

text \<open>
  \<open>DataAccessLayer\<close> holds its collaborators: the log reader (\<open>get_log_file\<close>,
  \<open>parse_logs\<close>) and the database client (\<open>db_execute\<close>, the client's \<open>execute\<close>). They
  are outside the repository's sources, so they are fields of the record: any function,
  raising or returning.

  Modelled from the spec: \<open>fetch_directive\<close> stands for the Evidence Provider
  operations that a plan directive names (\<open>fetch_table_consistency\<close>,
  \<open>fetch_upstream_data\<close>), which fail with a typed condition on a backend error.
\<close>

datatype directive =
    TableConsistency string datetime
  | UpstreamData string datetime

record DataAccessLayer =
  get_log_file :: "string \<Rightarrow> datetime \<Rightarrow> error + pyval"
  parse_logs :: "pyval \<Rightarrow> error + pyval"
  db_execute :: "string \<Rightarrow> string \<Rightarrow> datetime \<Rightarrow> error + pyval"
  fetch_directive :: "string \<Rightarrow> directive \<Rightarrow> error + pyval"

definition get_log_summary :: "DataAccessLayer \<Rightarrow> string \<Rightarrow> datetime \<Rightarrow> error + pyval" where
  "get_log_summary dl sys d =
     bindE (get_log_file dl sys d) (\<lambda>log_file.
     bindE (parse_logs dl log_file) (\<lambda>parsed_logs.
     bindE (py_getitem parsed_logs ''errors'') (\<lambda>errors.
     bindE (py_getitem parsed_logs ''warnings'') (\<lambda>warnings.
     bindE (py_getitem parsed_logs ''critical'') (\<lambda>critical.
     bindE (py_getitem parsed_logs ''metrics'') (\<lambda>metrics.
     bindE (py_getitem parsed_logs ''error_samples'') (\<lambda>error_samples.
     bindE (py_slice_to error_samples 10) (\<lambda>sample_errors.
     Inr (PDict
       [(''error_count'', errors),
        (''warning_count'', warnings),
        (''critical_events'', critical),
        (''performance_metrics'', metrics),
        (''sample_errors'', sample_errors)])))))))))"

definition metrics_query :: string where
  "metrics_query = concat (map (\<lambda>line. line @ [CHR 0x0A])
     ['''',
      ''            SELECT '',
      ''                run_status,'',
      ''                record_count,'',
      ''                processing_time,'',
      ''                data_volume,'',
      ''                error_rate'',
      ''            FROM system_metrics'',
      ''            WHERE system_name = %s '',
      ''            AND run_date = %s'']) @ ''        ''"

definition get_metrics :: "DataAccessLayer \<Rightarrow> string \<Rightarrow> datetime \<Rightarrow> error + pyval" where
  "get_metrics dl sys d = db_execute dl metrics_query sys d"

section \<open>The tool registry\<close>

record ToolRegistry =
  registry_data_layer :: DataAccessLayer

definition ToolRegistry_init :: "DataAccessLayer \<Rightarrow> ToolRegistry" where
  "ToolRegistry_init dl = \<lparr>registry_data_layer = dl\<rparr>"

definition get_detection_tools :: "ToolRegistry \<Rightarrow> pyval list" where
  "get_detection_tools reg =
     [PDict
        [(''name'', PStr ''get_error_details''),
         (''description'', PStr ''Retrieve detailed error messages from logs''),
         (''input_schema'', PDict
            [(''type'', PStr ''object''),
             (''properties'', PDict
                [(''system'', PDict [(''type'', PStr ''string'')]),
                 (''date'', PDict [(''type'', PStr ''string'')]),
                 (''error_type'', PDict [(''type'', PStr ''string'')])])])],
      PDict
        [(''name'', PStr ''compare_metrics''),
         (''description'', PStr ''Compare system metrics between two dates''),
         (''input_schema'', PDict
            [(''type'', PStr ''object''),
             (''properties'', PDict
                [(''system'', PDict [(''type'', PStr ''string'')]),
                 (''metric_name'', PDict [(''type'', PStr ''string'')]),
                 (''date1'', PDict [(''type'', PStr ''string'')]),
                 (''date2'', PDict [(''type'', PStr ''string'')])])])]]"

definition get_diagnosis_tools :: "ToolRegistry \<Rightarrow> pyval list" where
  "get_diagnosis_tools reg =
     [PDict
        [(''name'', PStr ''check_database_consistency''),
         (''description'', PStr ''Verify data consistency in database tables''),
         (''input_schema'', PDict
            [(''type'', PStr ''object''),
             (''properties'', PDict
                [(''table'', PDict [(''type'', PStr ''string'')]),
                 (''date'', PDict [(''type'', PStr ''string'')])])])],
      PDict
        [(''name'', PStr ''fetch_upstream_data''),
         (''description'', PStr ''Get data from upstream systems''),
         (''input_schema'', PDict
            [(''type'', PStr ''object''),
             (''properties'', PDict
                [(''source_system'', PDict [(''type'', PStr ''string'')]),
                 (''date'', PDict [(''type'', PStr ''string'')])])])]]"

text \<open>The name a tool specification declares.\<close>

definition tool_name :: "pyval \<Rightarrow> error + pyval" where
  "tool_name spec = py_getitem spec ''name''"

section \<open>The orchestrator\<close>

text \<open>
  \<open>AgentOrchestrator.__init__\<close> stores its three collaborators and an empty
  \<open>context_memory\<close>. The model client is its \<open>analyze\<close> method: a prompt and a tool
  catalog give a model answer or an error.
\<close>

record AgentOrchestrator =
  llm_client :: "string \<Rightarrow> pyval list \<Rightarrow> error + pyval"
  data_layer :: DataAccessLayer
  tools :: ToolRegistry
  context_memory :: "(string \<times> pyval) list"

definition AgentOrchestrator_init ::
  "(string \<Rightarrow> pyval list \<Rightarrow> error + pyval) \<Rightarrow> DataAccessLayer \<Rightarrow> ToolRegistry \<Rightarrow> AgentOrchestrator" where
  "AgentOrchestrator_init llm dl reg =
     \<lparr>llm_client = llm, data_layer = dl, tools = reg, context_memory = []\<rparr>"

text \<open>
  The calls a request issues to its collaborators are recorded in order: an evidence
  fetch of the data layer, the construction of a prompt, a model call with its prompt and
  catalog, the construction of the diagnostic plan, the fetch of a plan directive.
\<close>

datatype fetch_kind = LogSummary | Metrics

datatype event =
    EvFetch fetch_kind string datetime
  | EvDetectionPrompt
  | EvAnalyze string "pyval list"
  | EvPlan
  | EvDirective directive
  | EvDiagnosisPrompt

text \<open>
  A method of the orchestrator takes \<open>self\<close> and gives its outcome (a value, or the
  exception it raises), the calls it issued, and \<open>self\<close> as it leaves it.
\<close>

type_synonym 'a prog = "AgentOrchestrator \<Rightarrow> (error + 'a) \<times> event list \<times> AgentOrchestrator"

definition ret :: "'a \<Rightarrow> 'a prog" where
  "ret x = (\<lambda>self. (Inr x, [], self))"

definition lift :: "error + 'a \<Rightarrow> 'a prog" where
  "lift r = (\<lambda>self. (r, [], self))"

definition bind :: "'a prog \<Rightarrow> ('a \<Rightarrow> 'b prog) \<Rightarrow> 'b prog" where
  "bind m f = (\<lambda>self.
     case m self of
       (Inl e, tr, self') \<Rightarrow> (Inl e, tr, self')
     | (Inr x, tr, self') \<Rightarrow>
         (case f x self' of (r, tr', self'') \<Rightarrow> (r, tr @ tr', self'')))"

text \<open>
  \<open>asyncio.gather(*tasks)\<close> (the name \<open>asyncio\<close> as \<open>ApiUtils.py\<close> imports it): every
  awaitable is started, in list order, whatever the others do; the results come back in
  list order; when one raises, \<open>gather\<close> raises to its caller and the others are not
  cancelled. The collaborators are functions here, so completion order is list order and
  the exception raised is that of the first failing awaitable of the list.
\<close>

fun gather_outcomes ::
  "'a prog list \<Rightarrow> AgentOrchestrator \<Rightarrow> (error + 'a) list \<times> event list \<times> AgentOrchestrator" where
  "gather_outcomes [] self = ([], [], self)"
| "gather_outcomes (m # ms) self =
     (case m self of (r, tr, self') \<Rightarrow>
        (case gather_outcomes ms self' of (rs, tr', self'') \<Rightarrow> (r # rs, tr @ tr', self'')))"

fun collect :: "(error + 'a) list \<Rightarrow> error + 'a list" where
  "collect [] = Inr []"
| "collect (Inl e # rs) = Inl e"
| "collect (Inr x # rs) = bindE (collect rs) (\<lambda>xs. Inr (x # xs))"

definition gather :: "'a prog list \<Rightarrow> 'a list prog" where
  "gather ms = (\<lambda>self.
     case gather_outcomes ms self of (rs, tr, self') \<Rightarrow> (collect rs, tr, self'))"

text \<open>The calls to the collaborators that \<open>self\<close> holds, each recorded.\<close>

definition call_get_log_summary :: "string \<Rightarrow> datetime \<Rightarrow> pyval prog" where
  "call_get_log_summary sys d = (\<lambda>self.
     (get_log_summary (data_layer self) sys d, [EvFetch LogSummary sys d], self))"

definition call_get_metrics :: "string \<Rightarrow> datetime \<Rightarrow> pyval prog" where
  "call_get_metrics sys d = (\<lambda>self.
     (get_metrics (data_layer self) sys d, [EvFetch Metrics sys d], self))"

definition call_analyze :: "string \<Rightarrow> (ToolRegistry \<Rightarrow> pyval list) \<Rightarrow> pyval prog" where
  "call_analyze prompt catalog = (\<lambda>self.
     (llm_client self prompt (catalog (tools self)),
      [EvAnalyze prompt (catalog (tools self))], self))"

text \<open>
  The system clock, and the private methods that \<open>detect_issues\<close> and \<open>diagnose_issues\<close>
  call but the sources do not define (\<open>_build_detection_prompt\<close>,
  \<open>_parse_detection_response\<close>, \<open>_create_diagnostic_plan\<close>, \<open>_build_diagnosis_prompt\<close>,
  \<open>_parse_diagnosis_response\<close>), are parameters: functions of their arguments that
  return or raise. \<open>build_custom_prompt\<close> renders the prompt of a custom query.
\<close>

datatype evidence = Available pyval | Placeholder

record Environment =
  clock_now :: datetime
  build_detection_prompt :: "pyval \<Rightarrow> pyval \<Rightarrow> pyval \<Rightarrow> pyval \<Rightarrow> error + string"
  parse_detection_response :: "pyval \<Rightarrow> error + pyval"
  create_diagnostic_plan :: "pyval \<Rightarrow> error + directive list"
  build_diagnosis_prompt :: "pyval \<Rightarrow> (directive \<times> evidence) list \<Rightarrow> error + string"
  parse_diagnosis_response :: "pyval \<Rightarrow> error + pyval"
  build_custom_prompt :: "string \<Rightarrow> string \<Rightarrow> string"

definition call_build_detection_prompt ::
  "Environment \<Rightarrow> pyval \<Rightarrow> pyval \<Rightarrow> pyval \<Rightarrow> pyval \<Rightarrow> string prog" where
  "call_build_detection_prompt env lt ly mt my = (\<lambda>self.
     (build_detection_prompt env lt ly mt my, [EvDetectionPrompt], self))"

definition call_create_diagnostic_plan :: "Environment \<Rightarrow> pyval \<Rightarrow> directive list prog" where
  "call_create_diagnostic_plan env issues = (\<lambda>self.
     (create_diagnostic_plan env issues, [EvPlan], self))"

definition call_build_diagnosis_prompt ::
  "Environment \<Rightarrow> pyval \<Rightarrow> (directive \<times> evidence) list \<Rightarrow> string prog" where
  "call_build_diagnosis_prompt env issues diagnostic_data = (\<lambda>self.
     (build_diagnosis_prompt env issues diagnostic_data, [EvDiagnosisPrompt], self))"

subsection \<open>Phase 1: detection\<close>

text \<open>\<open>request.date or datetime.now()\<close>: a \<open>datetime\<close> is always true.\<close>

definition request_today :: "Environment \<Rightarrow> AgentRequest \<Rightarrow> datetime" where
  "request_today env request = (case date request of Some d \<Rightarrow> d | None \<Rightarrow> clock_now env)"

definition detect_issues :: "Environment \<Rightarrow> AgentRequest \<Rightarrow> pyval prog" where
  "detect_issues env request =
     (let today = request_today env request in
      bind (lift (datetime_sub today (timedelta_days 1))) (\<lambda>yesterday.
      bind (gather
             [call_get_log_summary (system request) today,
              call_get_log_summary (system request) yesterday,
              call_get_metrics (system request) today,
              call_get_metrics (system request) yesterday]) (\<lambda>results.
      case results of
        [log_today, log_yesterday, metrics_today, metrics_yesterday] \<Rightarrow>
          bind (call_build_detection_prompt env
                  log_today log_yesterday metrics_today metrics_yesterday) (\<lambda>analysis_prompt.
          bind (call_analyze analysis_prompt get_detection_tools) (\<lambda>llm_response.
          lift (parse_detection_response env llm_response)))
      | _ \<Rightarrow> lift (Inl ValueError))))"

subsection \<open>Phase 2: diagnosis\<close>

text \<open>
  Modelled from the spec: \<open>_execute_diagnostic_plan\<close>, which the sources call and do not
  define. The plan's directives are fetched in order; a directive whose fetch fails
  yields a placeholder evidence entry instead of aborting, so the step never raises and
  gives one outcome per directive.
\<close>

definition directive_outcome :: "DataAccessLayer \<Rightarrow> string \<Rightarrow> directive \<Rightarrow> evidence" where
  "directive_outcome dl sys d =
     (case fetch_directive dl sys d of Inr v \<Rightarrow> Available v | Inl e \<Rightarrow> Placeholder)"

definition execute_diagnostic_plan :: "directive list \<Rightarrow> string \<Rightarrow> (directive \<times> evidence) list prog" where
  "execute_diagnostic_plan plan sys = (\<lambda>self.
     (Inr (map (\<lambda>d. (d, directive_outcome (data_layer self) sys d)) plan),
      map EvDirective plan, self))"

definition diagnose_issues :: "Environment \<Rightarrow> AgentRequest \<Rightarrow> pyval \<Rightarrow> pyval prog" where
  "diagnose_issues env request issues =
     bind (call_create_diagnostic_plan env issues) (\<lambda>diagnostic_plan.
     bind (execute_diagnostic_plan diagnostic_plan (system request)) (\<lambda>diagnostic_data.
     bind (call_build_diagnosis_prompt env issues diagnostic_data) (\<lambda>diagnosis_prompt.
     bind (call_analyze diagnosis_prompt get_diagnosis_tools) (\<lambda>diagnosis.
     lift (parse_diagnosis_response env diagnosis)))))"

subsection \<open>Custom queries\<close>

text \<open>
  Modelled from the spec: \<open>handle_custom_query\<close>, which \<open>execute\<close> calls and the sources do
  not define. A custom query without a query text is an \<open>InvalidRequest\<close>, rejected
  before any fetch or model call. Otherwise one free-form model call is made, seeded with
  the query text and the system, with the detection and diagnosis toolset; the answer
  is wrapped verbatim in the result record, under the key \<open>answer\<close>.
\<close>

definition general_tools :: "ToolRegistry \<Rightarrow> pyval list" where
  "general_tools reg = get_detection_tools reg @ get_diagnosis_tools reg"

definition handle_custom_query :: "Environment \<Rightarrow> AgentRequest \<Rightarrow> pyval prog" where
  "handle_custom_query env request =
     (case specific_query request of
        None \<Rightarrow> lift (Inl InvalidRequest)
      | Some query \<Rightarrow>
          bind (call_analyze (build_custom_prompt env (system request) query) general_tools)
            (\<lambda>answer. ret (PDict [(''answer'', answer)])))"

subsection \<open>Dispatch\<close>

definition execute :: "Environment \<Rightarrow> AgentRequest \<Rightarrow> pyval prog" where
  "execute env request =
     (case mode request of
        ISSUE_DETECTION \<Rightarrow> detect_issues env request
      | FULL_DIAGNOSIS \<Rightarrow>
          bind (detect_issues env request) (\<lambda>issues.
          bind (lift (py_getitem issues ''has_issues'')) (\<lambda>has_issues.
          if truthy has_issues then
            bind (diagnose_issues env request issues) (\<lambda>diagnosis.
            lift (py_merge issues diagnosis))
          else ret issues))
      | CUSTOM_QUERY \<Rightarrow> handle_custom_query env request)"

text \<open>What a run gives: its outcome, the calls it issued, the orchestrator afterwards.\<close>

definition outcome :: "(error + 'a) \<times> event list \<times> AgentOrchestrator \<Rightarrow> error + 'a" where
  "outcome r = fst r"

definition calls :: "(error + 'a) \<times> event list \<times> AgentOrchestrator \<Rightarrow> event list" where
  "calls r = fst (snd r)"

definition final :: "(error + 'a) \<times> event list \<times> AgentOrchestrator \<Rightarrow> AgentOrchestrator" where
  "final r = snd (snd r)"

fun is_fetch :: "event \<Rightarrow> bool" where
  "is_fetch (EvFetch k s d) = True"
| "is_fetch ev = False"

fun is_analyze :: "event \<Rightarrow> bool" where
  "is_analyze (EvAnalyze p t) = True"
| "is_analyze ev = False"

text \<open>The catalogs handed to the model, one per model call, in order.\<close>

fun catalogs :: "event list \<Rightarrow> pyval list list" where
  "catalogs [] = []"
| "catalogs (EvAnalyze p t # evs) = t # catalogs evs"
| "catalogs (ev # evs) = catalogs evs"

section \<open>The response interpreter\<close>

text \<open>
  Modelled from the spec: \<open>_parse_detection_response\<close> and \<open>_parse_diagnosis_response\<close>,
  which the sources call and do not define. A model answer conforms to the expected shape
  when it is a mapping that carries the fields of the result record with their types:
  \<open>has_issues\<close> (a boolean) and \<open>issues\<close> (a sequence) for a detection; \<open>root_cause\<close> (a
  text), \<open>confidence\<close> (a level, as text) and \<open>supporting_evidence\<close> (a sequence) for a
  diagnosis. A conforming answer gives the record it carries; any other answer gives the
  default record: \<open>has_issues = False\<close> with no issues, or the confidence \<open>unknown\<close> with
  an empty root cause and no evidence. Either way the model output is kept verbatim as
  \<open>raw_model_output\<close>. The interpreters return a record for every input: they have no
  raising branch.
\<close>

definition get_bool :: "pyval \<Rightarrow> string \<Rightarrow> bool option" where
  "get_bool v key = (case py_getitem v key of Inr (PBool b) \<Rightarrow> Some b | _ \<Rightarrow> None)"

definition get_list :: "pyval \<Rightarrow> string \<Rightarrow> pyval list option" where
  "get_list v key = (case py_getitem v key of Inr (PList xs) \<Rightarrow> Some xs | _ \<Rightarrow> None)"

definition get_str :: "pyval \<Rightarrow> string \<Rightarrow> string option" where
  "get_str v key = (case py_getitem v key of Inr (PStr s) \<Rightarrow> Some s | _ \<Rightarrow> None)"

definition conforms_detection :: "pyval \<Rightarrow> bool" where
  "conforms_detection out =
     (get_bool out ''has_issues'' \<noteq> None \<and> get_list out ''issues'' \<noteq> None)"

definition parse_detection :: "pyval \<Rightarrow> pyval" where
  "parse_detection out =
     (case (get_bool out ''has_issues'', get_list out ''issues'') of
        (Some b, Some found) \<Rightarrow>
          PDict [(''has_issues'', PBool b), (''issues'', PList found),
                 (''raw_model_output'', out)]
      | _ \<Rightarrow>
          PDict [(''has_issues'', PBool False), (''issues'', PList []),
                 (''raw_model_output'', out)])"

definition conforms_diagnosis :: "pyval \<Rightarrow> bool" where
  "conforms_diagnosis out =
     (get_str out ''root_cause'' \<noteq> None \<and> get_str out ''confidence'' \<noteq> None
      \<and> get_list out ''supporting_evidence'' \<noteq> None)"

definition parse_diagnosis :: "pyval \<Rightarrow> pyval" where
  "parse_diagnosis out =
     (case (get_str out ''root_cause'', get_str out ''confidence'',
            get_list out ''supporting_evidence'') of
        (Some cause, Some level, Some refs) \<Rightarrow>
          PDict [(''root_cause'', PStr cause), (''confidence'', PStr level),
                 (''supporting_evidence'', PList refs), (''raw_model_output'', out)]
      | _ \<Rightarrow>
          PDict [(''root_cause'', PStr []), (''confidence'', PStr ''unknown''),
                 (''supporting_evidence'', PList []), (''raw_model_output'', out)])"

text \<open>A well-formed detection record, and a well-formed diagnosis record.\<close>

definition is_detection_result :: "pyval \<Rightarrow> bool" where
  "is_detection_result r =
     (get_bool r ''has_issues'' \<noteq> None \<and> get_list r ''issues'' \<noteq> None
      \<and> isl (py_getitem r ''raw_model_output'') = False)"

definition is_diagnosis_result :: "pyval \<Rightarrow> bool" where
  "is_diagnosis_result r =
     (get_str r ''root_cause'' \<noteq> None \<and> get_str r ''confidence'' \<noteq> None
      \<and> get_list r ''supporting_evidence'' \<noteq> None
      \<and> isl (py_getitem r ''raw_model_output'') = False)"

section \<open>Concrete scenarios\<close>

text \<open>
  The scenarios at which the theorems below are instantiated. The date is 2024-03-01
  (day 738945 after 0001-01-01). The steady data layer serves clean logs and metrics, and
  fails the upstream directive only; the broken one has a database that cannot be reached.
\<close>

definition march_first :: datetime where
  "march_first = 738945 * us_per_day"

definition clean_logs :: pyval where
  "clean_logs = PDict
     [(''errors'', PInt 0), (''warnings'', PInt 0), (''critical'', PList []),
      (''metrics'', PDict []), (''error_samples'', PList [])]"

definition steady_data_layer :: DataAccessLayer where
  "steady_data_layer =
     \<lparr>get_log_file = (\<lambda>sys d. Inr (PStr sys)),
      parse_logs = (\<lambda>log_file. Inr clean_logs),
      db_execute = (\<lambda>query sys d. Inr (PDict [(''run_status'', PStr ''ok'')])),
      fetch_directive = (\<lambda>sys d.
        case d of
          TableConsistency table day \<Rightarrow> Inr (PDict [(''total_records'', PInt 7)])
        | UpstreamData source day \<Rightarrow> Inl (EvidenceUnavailable source))\<rparr>"

definition broken_data_layer :: DataAccessLayer where
  "broken_data_layer =
     \<lparr>get_log_file = (\<lambda>sys d. Inr (PStr sys)),
      parse_logs = (\<lambda>log_file. Inr clean_logs),
      db_execute = (\<lambda>query sys d. Inl (EvidenceUnavailable ''system_metrics'')),
      fetch_directive = (\<lambda>sys d. Inl (EvidenceUnavailable sys))\<rparr>"

definition scenario_env :: Environment where
  "scenario_env =
     \<lparr>clock_now = march_first,
      build_detection_prompt = (\<lambda>lt ly mt my. Inr ''detect''),
      parse_detection_response = (\<lambda>out. Inr (parse_detection out)),
      create_diagnostic_plan = (\<lambda>issues.
        Inr [TableConsistency ''trades'' march_first, UpstreamData ''feed'' march_first]),
      build_diagnosis_prompt = (\<lambda>issues diagnostic_data. Inr ''diagnose''),
      parse_diagnosis_response = (\<lambda>out. Inr (parse_diagnosis out)),
      build_custom_prompt = (\<lambda>sys query. sys @ '': '' @ query)\<rparr>"

definition quiet_answer :: pyval where
  "quiet_answer = PDict [(''has_issues'', PBool False), (''issues'', PList [])]"

definition alarm_answer :: pyval where
  "alarm_answer = PDict [(''has_issues'', PBool True), (''issues'', PList [PStr ''error_rate_spike''])]"

definition quiet_llm :: "string \<Rightarrow> pyval list \<Rightarrow> error + pyval" where
  "quiet_llm prompt catalog = Inr quiet_answer"

definition alarm_llm :: "string \<Rightarrow> pyval list \<Rightarrow> error + pyval" where
  "alarm_llm prompt catalog =
     (if prompt = ''detect'' then Inr alarm_answer else Inr (PStr ''the feed was late''))"

definition quiet_orchestrator :: AgentOrchestrator where
  "quiet_orchestrator =
     AgentOrchestrator_init quiet_llm steady_data_layer (ToolRegistry_init steady_data_layer)"

definition alarm_orchestrator :: AgentOrchestrator where
  "alarm_orchestrator =
     AgentOrchestrator_init alarm_llm steady_data_layer (ToolRegistry_init steady_data_layer)"

definition broken_orchestrator :: AgentOrchestrator where
  "broken_orchestrator =
     AgentOrchestrator_init quiet_llm broken_data_layer (ToolRegistry_init broken_data_layer)"

definition scenario_request :: "AgentMode \<Rightarrow> AgentRequest" where
  "scenario_request m =
     \<lparr>mode = m, system = ''risk_management'', date = Some march_first, specific_query = None\<rparr>"

definition volume_query :: AgentRequest where
  "volume_query =
     \<lparr>mode = CUSTOM_QUERY, system = ''pnl_system'', date = None,
      specific_query = Some ''why did volume drop yesterday''\<rparr>"

definition first_day_request :: AgentRequest where
  "first_day_request =
     \<lparr>mode = ISSUE_DETECTION, system = ''risk_management'', date = Some datetime_min,
      specific_query = None\<rparr>"

section \<open>Auxiliary notions for the proofs\<close>

text \<open>
  The four evidence fetches of a detection call, in the order they are issued, and their
  outcomes in the same order.
\<close>

definition detection_fetches :: "string \<Rightarrow> datetime \<Rightarrow> datetime \<Rightarrow> event list" where
  "detection_fetches sys today yesterday =
     [EvFetch LogSummary sys today, EvFetch LogSummary sys yesterday,
      EvFetch Metrics sys today, EvFetch Metrics sys yesterday]"

definition detection_outcomes ::
  "DataAccessLayer \<Rightarrow> string \<Rightarrow> datetime \<Rightarrow> datetime \<Rightarrow> (error + pyval) list" where
  "detection_outcomes dl sys today yesterday =
     [get_log_summary dl sys today, get_log_summary dl sys yesterday,
      get_metrics dl sys today, get_metrics dl sys yesterday]"

text \<open>
  A method keeps \<open>self\<close> when it returns the orchestrator it was given, and its outcome and
  calls are the same whatever \<open>context_memory\<close> holds.
\<close>

definition keeps_self :: "'a prog \<Rightarrow> bool" where
  "keeps_self m = (\<forall>self mem.
     m (self\<lparr>context_memory := mem\<rparr>)
       = (outcome (m self), calls (m self), self\<lparr>context_memory := mem\<rparr>))"

text \<open>
  What a detection run does once the four fetches have returned: the prompt is built, the
  model is called with the detection catalog, the answer is interpreted. The pair is the
  outcome and the calls issued.
\<close>

definition detection_tail ::
  "Environment \<Rightarrow> AgentOrchestrator \<Rightarrow> pyval \<Rightarrow> pyval \<Rightarrow> pyval \<Rightarrow> pyval
     \<Rightarrow> (error + pyval) \<times> event list" where
  "detection_tail env self lt ly mt my =
     (case build_detection_prompt env lt ly mt my of
        Inl e \<Rightarrow> (Inl e, [EvDetectionPrompt])
      | Inr p \<Rightarrow>
          (case llm_client self p (get_detection_tools (tools self)) of
             Inl e \<Rightarrow> (Inl e, [EvDetectionPrompt, EvAnalyze p (get_detection_tools (tools self))])
           | Inr out \<Rightarrow>
               (parse_detection_response env out,
                [EvDetectionPrompt, EvAnalyze p (get_detection_tools (tools self))])))"

fun is_directive :: "event \<Rightarrow> bool" where
  "is_directive (EvDirective d) = True"
| "is_directive ev = False"

text \<open>The fields of a detection result and of a diagnosis result.\<close>

definition result_fields :: "string list" where
  "result_fields =
     [''has_issues'', ''issues'', ''root_cause'', ''confidence'', ''supporting_evidence'']"

text \<open>A log with twelve error samples, and a data layer that serves it.\<close>

definition noisy_logs :: pyval where
  "noisy_logs = PDict
     [(''errors'', PInt 12), (''warnings'', PInt 3), (''critical'', PList [PStr ''disk full'']),
      (''metrics'', PDict [(''latency_ms'', PInt 950)]),
      (''error_samples'', PList
         [PInt 1, PInt 2, PInt 3, PInt 4, PInt 5, PInt 6, PInt 7, PInt 8, PInt 9, PInt 10,
          PInt 11, PInt 12])]"

definition noisy_data_layer :: DataAccessLayer where
  "noisy_data_layer = steady_data_layer\<lparr>parse_logs := (\<lambda>log_file. Inr noisy_logs)\<rparr>"

section \<open>The orchestrator never touches its context memory\<close>

lemma keeps_self_update:
  assumes "keeps_self m"
  shows "m (self\<lparr>context_memory := mem\<rparr>) = (outcome (m self), calls (m self), self\<lparr>context_memory := mem\<rparr>)"
  using assms by (simp add: keeps_self_def)

lemma keeps_self_run:
  assumes "keeps_self m"
  shows "m self = (outcome (m self), calls (m self), self)"
  using keeps_self_update [OF assms, where self = self and mem = "context_memory self"] by simp

lemma keeps_self_ex:
  assumes "keeps_self m"
  shows "\<exists>r tr. m self = (r, tr, self)
           \<and> (\<forall>mem. m (self\<lparr>context_memory := mem\<rparr>) = (r, tr, self\<lparr>context_memory := mem\<rparr>))"
  using keeps_self_run [OF assms, where self = self] keeps_self_update [OF assms, where self = self]
  by blast

lemma keeps_selfI:
  assumes "\<And>self mem. \<exists>r tr. m self = (r, tr, self)
             \<and> m (self\<lparr>context_memory := mem\<rparr>) = (r, tr, self\<lparr>context_memory := mem\<rparr>)"
  shows "keeps_self m"
  unfolding keeps_self_def outcome_def calls_def
proof (intro allI)
  fix self mem
  from assms [of self mem] obtain r tr where "m self = (r, tr, self)"
    and "m (self\<lparr>context_memory := mem\<rparr>) = (r, tr, self\<lparr>context_memory := mem\<rparr>)" by blast
  then show "m (self\<lparr>context_memory := mem\<rparr>) = (fst (m self), fst (snd (m self)), self\<lparr>context_memory := mem\<rparr>)"
    by simp
qed

lemma keeps_self_ret: "keeps_self (ret x)"
  by (simp add: keeps_self_def ret_def outcome_def calls_def)

lemma keeps_self_lift: "keeps_self (lift r)"
  by (simp add: keeps_self_def lift_def outcome_def calls_def)

lemma keeps_self_bind:
  assumes m: "keeps_self m" and f: "\<And>x. keeps_self (f x)"
  shows "keeps_self (bind m f)"
proof (rule keeps_selfI)
  fix self mem
  obtain r tr where m1: "m self = (r, tr, self)"
    and m2: "\<And>mem. m (self\<lparr>context_memory := mem\<rparr>) = (r, tr, self\<lparr>context_memory := mem\<rparr>)"
    using keeps_self_ex [OF m, where self = self] by blast
  show "\<exists>r tr. bind m f self = (r, tr, self)
          \<and> bind m f (self\<lparr>context_memory := mem\<rparr>) = (r, tr, self\<lparr>context_memory := mem\<rparr>)"
  proof (cases r)
    case (Inl e)
    with m1 m2 [of mem] show ?thesis by (simp add: bind_def)
  next
    case (Inr x)
    obtain r' tr' where f1: "f x self = (r', tr', self)"
      and f2: "\<And>mem. f x (self\<lparr>context_memory := mem\<rparr>) = (r', tr', self\<lparr>context_memory := mem\<rparr>)"
      using keeps_self_ex [OF f, where self = self] by blast
    from Inr m1 m2 [of mem] f1 f2 [of mem] show ?thesis by (simp add: bind_def)
  qed
qed

lemma gather_outcomes_keeps:
  assumes "\<And>m. m \<in> set ms \<Longrightarrow> keeps_self m"
  shows "\<exists>rs tr. gather_outcomes ms self = (rs, tr, self)
           \<and> gather_outcomes ms (self\<lparr>context_memory := mem\<rparr>) = (rs, tr, self\<lparr>context_memory := mem\<rparr>)"
  using assms
proof (induction ms)
  case Nil
  then show ?case by simp
next
  case (Cons m ms)
  have m: "keeps_self m" using Cons.prems by simp
  obtain r tr where m1: "m self = (r, tr, self)"
    and m2: "\<And>mem. m (self\<lparr>context_memory := mem\<rparr>) = (r, tr, self\<lparr>context_memory := mem\<rparr>)"
    using keeps_self_ex [OF m, where self = self] by blast
  from Cons obtain rs tr' where g1: "gather_outcomes ms self = (rs, tr', self)"
    and g2: "gather_outcomes ms (self\<lparr>context_memory := mem\<rparr>) = (rs, tr', self\<lparr>context_memory := mem\<rparr>)"
    by auto
  from m1 m2 [of mem] g1 g2 show ?case by simp
qed

lemma keeps_self_gather:
  assumes "\<And>m. m \<in> set ms \<Longrightarrow> keeps_self m"
  shows "keeps_self (gather ms)"
proof (rule keeps_selfI)
  fix self mem
  have "\<exists>rs tr. gather_outcomes ms self = (rs, tr, self)
           \<and> gather_outcomes ms (self\<lparr>context_memory := mem\<rparr>) = (rs, tr, self\<lparr>context_memory := mem\<rparr>)"
    by (rule gather_outcomes_keeps) (rule assms)
  then show "\<exists>r tr. gather ms self = (r, tr, self)
          \<and> gather ms (self\<lparr>context_memory := mem\<rparr>) = (r, tr, self\<lparr>context_memory := mem\<rparr>)"
    by (auto simp: gather_def)
qed

lemma keeps_self_calls:
  "keeps_self (call_get_log_summary sys d)"
  "keeps_self (call_get_metrics sys d)"
  "keeps_self (call_analyze prompt catalog)"
  "keeps_self (call_build_detection_prompt env lt ly mt my)"
  "keeps_self (call_create_diagnostic_plan env issues)"
  "keeps_self (call_build_diagnosis_prompt env issues dd)"
  "keeps_self (execute_diagnostic_plan plan sys)"
  by (simp_all add: keeps_self_def outcome_def calls_def call_get_log_summary_def
      call_get_metrics_def call_analyze_def call_build_detection_prompt_def
      call_create_diagnostic_plan_def call_build_diagnosis_prompt_def execute_diagnostic_plan_def)

lemma keeps_self_detect_issues: "keeps_self (detect_issues env request)"
  unfolding detect_issues_def Let_def
  by (intro keeps_self_bind keeps_self_lift keeps_self_gather)
     (auto intro!: keeps_self_bind keeps_self_lift keeps_self_calls split: list.splits)

lemma keeps_self_diagnose_issues: "keeps_self (diagnose_issues env request issues)"
  unfolding diagnose_issues_def
  by (intro keeps_self_bind keeps_self_lift keeps_self_calls)

lemma keeps_self_handle_custom_query: "keeps_self (handle_custom_query env request)"
  unfolding handle_custom_query_def
  by (auto intro!: keeps_self_bind keeps_self_lift keeps_self_calls keeps_self_ret split: option.splits)

lemma keeps_self_execute: "keeps_self (execute env request)"
  unfolding execute_def
  by (cases "mode request")
     (auto intro!: keeps_self_bind keeps_self_lift keeps_self_ret keeps_self_detect_issues
        keeps_self_diagnose_issues keeps_self_handle_custom_query)

text \<open>
  Claim C10. For every request and every mode, \<open>execute\<close> and the operations it invokes
  neither write nor read \<open>context_memory\<close>: the orchestrator that a run leaves behind is
  the one it was given, the outcome and the calls of the run are the same whatever the
  mapping holds, and an orchestrator built by \<open>__init__\<close> starts with the empty mapping and
  still has it after any request.
\<close>

theorem execute_never_touches_context_memory:
  "final (execute env request self) = self
   \<and> outcome (execute env request (self\<lparr>context_memory := mem\<rparr>)) = outcome (execute env request self)
   \<and> calls (execute env request (self\<lparr>context_memory := mem\<rparr>)) = calls (execute env request self)
   \<and> context_memory (AgentOrchestrator_init llm dl reg) = []
   \<and> context_memory (final (execute env request (AgentOrchestrator_init llm dl reg))) = []"
proof -
  have run: "execute env request s = (outcome (execute env request s), calls (execute env request s), s)" for s
    by (rule keeps_self_run [OF keeps_self_execute])
  have upd: "execute env request (self\<lparr>context_memory := mem\<rparr>)
      = (outcome (execute env request self), calls (execute env request self), self\<lparr>context_memory := mem\<rparr>)"
    by (rule keeps_self_update [OF keeps_self_execute])
  have 1: "final (execute env request s) = s" for s
    unfolding final_def by (metis run snd_conv)
  have 2: "outcome (execute env request (self\<lparr>context_memory := mem\<rparr>)) = outcome (execute env request self)"
    unfolding outcome_def by (metis upd fst_conv outcome_def)
  have 3: "calls (execute env request (self\<lparr>context_memory := mem\<rparr>)) = calls (execute env request self)"
    unfolding calls_def by (metis upd fst_conv snd_conv calls_def)
  show ?thesis using 1 2 3 by (simp add: AgentOrchestrator_init_def)
qed

section \<open>Facts about the combinators and the events\<close>

lemma bindE_Inr_iff: "bindE m f = Inr y \<longleftrightarrow> (\<exists>x. m = Inr x \<and> f x = Inr y)"
  by (cases m) (simp_all add: bindE_def)

lemma collect_Inr4:
  "collect [a, b, c, d] = Inr rs \<longleftrightarrow>
     (\<exists>w x y z. a = Inr w \<and> b = Inr x \<and> c = Inr y \<and> d = Inr z \<and> rs = [w, x, y, z])"
  by (cases a; cases b; cases c; cases d) (auto simp: bindE_def)

lemma collect_isl: "isl (collect rs) \<longleftrightarrow> (\<exists>r\<in>set rs. isl r)"
  by (induction rs rule: collect.induct) (auto simp: bindE_def split: sum.splits)

lemma catalogs_append: "catalogs (xs @ ys) = catalogs xs @ catalogs ys"
  by (induction xs rule: catalogs.induct) simp_all

lemma catalogs_directives: "catalogs (map EvDirective plan) = []"
  by (induction plan) simp_all

lemma catalogs_detection_fetches: "catalogs (detection_fetches sys t y) = []"
  by (simp add: detection_fetches_def)

lemma filter_fetch_detection_fetches:
  "filter is_fetch (detection_fetches sys t y) = detection_fetches sys t y"
  by (simp add: detection_fetches_def)

section \<open>The runs of the two phases\<close>

text \<open>
  A detection run ends in one of four ways: the date arithmetic overflows before any
  fetch; one of the four fetches fails; the prompt builder or the model call fails; or
  the interpreter is reached. Each way fixes the calls that were issued.
\<close>

lemma detection_tail_calls:
  "snd (detection_tail env self lt ly mt my) = [EvDetectionPrompt]
   \<or> (\<exists>p. snd (detection_tail env self lt ly mt my)
           = [EvDetectionPrompt, EvAnalyze p (get_detection_tools (tools self))])"
  by (simp add: detection_tail_def split: sum.splits)

lemma detection_tail_success:
  "fst (detection_tail env self lt ly mt my) = Inr issues \<Longrightarrow>
     \<exists>p. snd (detection_tail env self lt ly mt my)
           = [EvDetectionPrompt, EvAnalyze p (get_detection_tools (tools self))]"
  by (simp add: detection_tail_def split: sum.splits)

lemma detect_issues_overflow:
  assumes "datetime_sub (request_today env request) (timedelta_days 1) = Inl e"
  shows "detect_issues env request self = (Inl e, [], self)"
  using assms by (simp add: detect_issues_def Let_def bind_def lift_def)

lemma detect_issues_gather_fails:
  assumes "datetime_sub (request_today env request) (timedelta_days 1) = Inr y"
    and "collect (detection_outcomes (data_layer self) (system request) (request_today env request) y) = Inl e"
  shows "detect_issues env request self =
           (Inl e, detection_fetches (system request) (request_today env request) y, self)"
  using assms
  by (simp add: detect_issues_def Let_def bind_def lift_def gather_def
      call_get_log_summary_def call_get_metrics_def detection_outcomes_def detection_fetches_def)

lemma detect_issues_gathered:
  assumes "datetime_sub (request_today env request) (timedelta_days 1) = Inr y"
    and "collect (detection_outcomes (data_layer self) (system request) (request_today env request) y) = Inr rs"
  shows "\<exists>lt ly mt my. rs = [lt, ly, mt, my] \<and> detect_issues env request self =
     (fst (detection_tail env self lt ly mt my),
      detection_fetches (system request) (request_today env request) y
        @ snd (detection_tail env self lt ly mt my),
      self)"
proof -
  from assms(2) obtain lt ly mt my where rs: "rs = [lt, ly, mt, my]"
    and o: "get_log_summary (data_layer self) (system request) (request_today env request) = Inr lt"
      "get_log_summary (data_layer self) (system request) y = Inr ly"
      "get_metrics (data_layer self) (system request) (request_today env request) = Inr mt"
      "get_metrics (data_layer self) (system request) y = Inr my"
    unfolding detection_outcomes_def collect_Inr4 by blast
  from assms(1) o have "detect_issues env request self =
     (fst (detection_tail env self lt ly mt my),
      detection_fetches (system request) (request_today env request) y
        @ snd (detection_tail env self lt ly mt my),
      self)"
    by (simp add: detect_issues_def Let_def bind_def lift_def gather_def bindE_def
      call_get_log_summary_def call_get_metrics_def detection_fetches_def detection_tail_def
      call_build_detection_prompt_def call_analyze_def split: sum.splits)
  with rs show ?thesis by blast
qed

lemma detect_issues_calls:
  assumes "datetime_sub (request_today env request) (timedelta_days 1) = Inr y"
  shows "\<exists>rest. calls (detect_issues env request self)
            = detection_fetches (system request) (request_today env request) y @ rest
          \<and> (rest = [] \<or> rest = [EvDetectionPrompt]
              \<or> (\<exists>p. rest = [EvDetectionPrompt, EvAnalyze p (get_detection_tools (tools self))]))"
proof (cases "collect (detection_outcomes (data_layer self) (system request) (request_today env request) y)")
  case (Inl e)
  from detect_issues_gather_fails [OF assms Inl] show ?thesis by (simp add: calls_def)
next
  case (Inr rs)
  from detect_issues_gathered [OF assms Inr] obtain lt ly mt my where
    "calls (detect_issues env request self)
       = detection_fetches (system request) (request_today env request) y
           @ snd (detection_tail env self lt ly mt my)"
    by (auto simp: calls_def)
  with detection_tail_calls [of env self lt ly mt my] show ?thesis by auto
qed

lemma detect_issues_success:
  assumes "outcome (detect_issues env request self) = Inr issues"
  shows "\<exists>y p. datetime_sub (request_today env request) (timedelta_days 1) = Inr y
          \<and> detect_issues env request self =
              (Inr issues,
               detection_fetches (system request) (request_today env request) y
                 @ [EvDetectionPrompt, EvAnalyze p (get_detection_tools (tools self))],
               self)"
proof (cases "datetime_sub (request_today env request) (timedelta_days 1)")
  case (Inl e)
  from detect_issues_overflow [OF Inl] assms show ?thesis by (simp add: outcome_def)
next
  case (Inr y)
  show ?thesis
  proof (cases "collect (detection_outcomes (data_layer self) (system request) (request_today env request) y)")
    case (Inl e)
    from detect_issues_gather_fails [OF Inr Inl] assms show ?thesis by (simp add: outcome_def)
  next
    case r: (Inr rs)
    from detect_issues_gathered [OF Inr r] obtain lt ly mt my where
      d: "detect_issues env request self =
       (fst (detection_tail env self lt ly mt my),
        detection_fetches (system request) (request_today env request) y
          @ snd (detection_tail env self lt ly mt my),
        self)"
      by blast
    with assms have "fst (detection_tail env self lt ly mt my) = Inr issues"
      by (simp add: outcome_def)
    with detection_tail_success [of env self lt ly mt my issues] d Inr show ?thesis by auto
  qed
qed

lemma diagnose_issues_run:
  "diagnose_issues env request issues self =
     (case create_diagnostic_plan env issues of
        Inl e \<Rightarrow> (Inl e, [EvPlan], self)
      | Inr plan \<Rightarrow>
          (case build_diagnosis_prompt env issues
                  (map (\<lambda>d. (d, directive_outcome (data_layer self) (system request) d)) plan) of
             Inl e \<Rightarrow> (Inl e, EvPlan # map EvDirective plan @ [EvDiagnosisPrompt], self)
           | Inr p \<Rightarrow>
               (case llm_client self p (get_diagnosis_tools (tools self)) of
                  Inl e \<Rightarrow>
                    (Inl e,
                     EvPlan # map EvDirective plan
                       @ [EvDiagnosisPrompt, EvAnalyze p (get_diagnosis_tools (tools self))],
                     self)
                | Inr out \<Rightarrow>
                    (parse_diagnosis_response env out,
                     EvPlan # map EvDirective plan
                       @ [EvDiagnosisPrompt, EvAnalyze p (get_diagnosis_tools (tools self))],
                     self))))"
  by (simp add: diagnose_issues_def bind_def lift_def call_create_diagnostic_plan_def
      execute_diagnostic_plan_def call_build_diagnosis_prompt_def call_analyze_def
      split: sum.splits)

lemma execute_detection_fails:
  assumes "mode request \<noteq> CUSTOM_QUERY" and "isl (outcome (detect_issues env request self))"
  shows "execute env request self = detect_issues env request self"
proof (cases "mode request")
  case ISSUE_DETECTION
  then show ?thesis by (simp add: execute_def)
next
  case FULL_DIAGNOSIS
  from assms(2) obtain e tr s where "detect_issues env request self = (Inl e, tr, s)"
    by (cases "detect_issues env request self") (auto simp: outcome_def isl_def)
  with FULL_DIAGNOSIS show ?thesis by (simp add: execute_def bind_def)
next
  case CUSTOM_QUERY
  with assms show ?thesis by simp
qed

lemma datetime_sub_one_day:
  assumes "datetime_min + timedelta_days 1 \<le> t" and "t \<le> datetime_max"
  shows "datetime_sub t (timedelta_days 1) = Inr (t - us_per_day)"
  using assms
  by (simp add: datetime_sub_def timedelta_days_def datetime_min_def datetime_max_def us_per_day_def)

lemma py_slice_to_len:
  "py_slice_to v n = Inr w \<Longrightarrow> \<exists>k. py_len w = Inr k \<and> k \<le> n"
  by (cases v) auto

lemma parse_diagnosis_is_result: "is_diagnosis_result (parse_diagnosis out)"
  by (auto simp: is_diagnosis_result_def parse_diagnosis_def get_list_def get_str_def
      split: option.splits)

lemma parse_diagnosis_is_dict: "\<exists>kvs. parse_diagnosis out = PDict kvs"
  by (simp add: parse_diagnosis_def split: option.splits)

lemma py_getitem_is_dict: "py_getitem v key = Inr w \<Longrightarrow> \<exists>kvs. v = PDict kvs"
  by (cases v) simp_all

text \<open>The definitions that evaluate a run at the concrete scenarios.\<close>

lemmas scenario_defs =
  scenario_env_def scenario_request_def quiet_orchestrator_def alarm_orchestrator_def
  AgentOrchestrator_init_def ToolRegistry_init_def steady_data_layer_def quiet_llm_def
  alarm_llm_def quiet_answer_def alarm_answer_def clean_logs_def march_first_def

lemmas run_defs =
  execute_def detect_issues_def diagnose_issues_def handle_custom_query_def Let_def
  bind_def lift_def ret_def gather_def call_get_log_summary_def call_get_metrics_def
  call_analyze_def call_build_detection_prompt_def call_create_diagnostic_plan_def
  call_build_diagnosis_prompt_def execute_diagnostic_plan_def directive_outcome_def
  request_today_def datetime_sub_def timedelta_days_def us_per_day_def datetime_min_def
  datetime_max_def get_log_summary_def get_metrics_def bindE_def
  parse_detection_def parse_diagnosis_def get_bool_def get_list_def get_str_def
  outcome_def calls_def final_def

section \<open>Dispatch and the detection phase\<close>

text \<open>
  Claim C1. For a \<open>FULL_DIAGNOSIS\<close> request whose detection result carries a false
  \<open>has_issues\<close> (any value that Python tests as false), \<open>execute\<close> is the detection run
  and nothing more: it returns exactly the detection result, no diagnostic plan is built,
  no directive is fetched, no diagnosis prompt is built, and the only model call is the
  phase-1 call with the detection catalog.
\<close>

theorem full_diagnosis_short_circuit:
  assumes "mode request = FULL_DIAGNOSIS"
    and "outcome (detect_issues env request self) = Inr issues"
    and "py_getitem issues ''has_issues'' = Inr flag"
    and "\<not> truthy flag"
  shows "execute env request self = detect_issues env request self
       \<and> outcome (execute env request self) = Inr issues
       \<and> EvPlan \<notin> set (calls (execute env request self))
       \<and> EvDiagnosisPrompt \<notin> set (calls (execute env request self))
       \<and> filter is_directive (calls (execute env request self)) = []
       \<and> catalogs (calls (execute env request self)) = [get_detection_tools (tools self)]"
proof -
  from detect_issues_success [OF assms(2)] obtain y p where
    d: "detect_issues env request self =
          (Inr issues,
           detection_fetches (system request) (request_today env request) y
             @ [EvDetectionPrompt, EvAnalyze p (get_detection_tools (tools self))],
           self)"
    by blast
  with assms(1,3,4) have e: "execute env request self = detect_issues env request self"
    by (simp add: execute_def bind_def lift_def ret_def)
  from e d show ?thesis
    by (simp add: outcome_def calls_def detection_fetches_def)
qed

theorem full_diagnosis_short_circuit_witness:
  "mode (scenario_request FULL_DIAGNOSIS) = FULL_DIAGNOSIS
   \<and> outcome (detect_issues scenario_env (scenario_request FULL_DIAGNOSIS) quiet_orchestrator)
       = Inr (parse_detection quiet_answer)
   \<and> py_getitem (parse_detection quiet_answer) ''has_issues'' = Inr (PBool False)
   \<and> outcome (execute scenario_env (scenario_request FULL_DIAGNOSIS) quiet_orchestrator)
       = Inr (parse_detection quiet_answer)
   \<and> EvPlan \<notin> set (calls (execute scenario_env (scenario_request FULL_DIAGNOSIS) quiet_orchestrator))
   \<and> catalogs (calls (execute scenario_env (scenario_request FULL_DIAGNOSIS) quiet_orchestrator))
       = [get_detection_tools (tools quiet_orchestrator)]"
proof -
  have h1: "mode (scenario_request FULL_DIAGNOSIS) = FULL_DIAGNOSIS"
    by (simp add: scenario_request_def)
  have h2: "outcome (detect_issues scenario_env (scenario_request FULL_DIAGNOSIS) quiet_orchestrator)
       = Inr (parse_detection quiet_answer)"
    by (simp add: run_defs scenario_defs)
  have h3: "py_getitem (parse_detection quiet_answer) ''has_issues'' = Inr (PBool False)"
    by (simp add: run_defs scenario_defs)
  have h4: "\<not> truthy (PBool False)" by simp
  from full_diagnosis_short_circuit [OF h1 h2 h3 h4] h1 h2 h3 show ?thesis by blast
qed

text \<open>
  Claim C4. When the preceding day is representable and any one of the four primary
  evidence fetches fails (with \<open>EvidenceUnavailable\<close> or any other error), the detection
  phase fails: the calls issued are the four fetches only, so no prompt is built and the
  model is not called; and a request in \<open>ISSUE_DETECTION\<close> or \<open>FULL_DIAGNOSIS\<close> mode fails
  with it.
\<close>

theorem detection_fails_on_any_failed_fetch:
  assumes "datetime_sub (request_today env request) (timedelta_days 1) = Inr yesterday"
    and "isl (get_log_summary (data_layer self) (system request) (request_today env request))
       \<or> isl (get_log_summary (data_layer self) (system request) yesterday)
       \<or> isl (get_metrics (data_layer self) (system request) (request_today env request))
       \<or> isl (get_metrics (data_layer self) (system request) yesterday)"
    and "mode request \<noteq> CUSTOM_QUERY"
  shows "isl (outcome (detect_issues env request self))
       \<and> calls (detect_issues env request self)
           = detection_fetches (system request) (request_today env request) yesterday
       \<and> EvDetectionPrompt \<notin> set (calls (detect_issues env request self))
       \<and> catalogs (calls (detect_issues env request self)) = []
       \<and> execute env request self = detect_issues env request self"
proof -
  from assms(2) have "isl (collect (detection_outcomes (data_layer self) (system request)
      (request_today env request) yesterday))"
    unfolding collect_isl by (auto simp: detection_outcomes_def)
  then obtain e where "collect (detection_outcomes (data_layer self) (system request)
      (request_today env request) yesterday) = Inl e"
    by (auto simp: isl_def)
  from detect_issues_gather_fails [OF assms(1) this]
  have d: "detect_issues env request self =
           (Inl e, detection_fetches (system request) (request_today env request) yesterday, self)" .
  then have f: "isl (outcome (detect_issues env request self))" by (simp add: outcome_def)
  from d f execute_detection_fails [OF assms(3) f] show ?thesis
    by (simp add: outcome_def calls_def detection_fetches_def)
qed

theorem detection_fails_on_any_failed_fetch_witness:
  "datetime_sub (request_today scenario_env (scenario_request FULL_DIAGNOSIS)) (timedelta_days 1)
     = Inr (march_first - us_per_day)
   \<and> get_metrics (data_layer broken_orchestrator) ''risk_management'' march_first
       = Inl (EvidenceUnavailable ''system_metrics'')
   \<and> isl (outcome (execute scenario_env (scenario_request FULL_DIAGNOSIS) broken_orchestrator))
   \<and> calls (execute scenario_env (scenario_request FULL_DIAGNOSIS) broken_orchestrator)
       = detection_fetches ''risk_management'' march_first (march_first - us_per_day)"
proof -
  have h1: "datetime_sub (request_today scenario_env (scenario_request FULL_DIAGNOSIS)) (timedelta_days 1)
     = Inr (march_first - us_per_day)"
    by (simp add: run_defs scenario_defs)
  have h2: "get_metrics (data_layer broken_orchestrator) ''risk_management'' march_first
       = Inl (EvidenceUnavailable ''system_metrics'')"
    by (simp add: get_metrics_def broken_orchestrator_def broken_data_layer_def
        AgentOrchestrator_init_def)
  have s: "system (scenario_request FULL_DIAGNOSIS) = ''risk_management''"
    "request_today scenario_env (scenario_request FULL_DIAGNOSIS) = march_first"
    by (simp_all add: scenario_request_def request_today_def)
  have h3: "isl (get_log_summary (data_layer broken_orchestrator) (system (scenario_request FULL_DIAGNOSIS))
              (request_today scenario_env (scenario_request FULL_DIAGNOSIS)))
       \<or> isl (get_log_summary (data_layer broken_orchestrator) (system (scenario_request FULL_DIAGNOSIS))
              (march_first - us_per_day))
       \<or> isl (get_metrics (data_layer broken_orchestrator) (system (scenario_request FULL_DIAGNOSIS))
              (request_today scenario_env (scenario_request FULL_DIAGNOSIS)))
       \<or> isl (get_metrics (data_layer broken_orchestrator) (system (scenario_request FULL_DIAGNOSIS))
              (march_first - us_per_day))"
    using h2 by (simp add: s)
  have h4: "mode (scenario_request FULL_DIAGNOSIS) \<noteq> CUSTOM_QUERY"
    by (simp add: scenario_request_def)
  from detection_fails_on_any_failed_fetch [OF h1 h3 h4] h1 h2 show ?thesis by (simp add: s)
qed

text \<open>
  Claim C7, as amended. Let \<open>d\<close> be the request date, or the current time when the
  request carries none. When \<open>d\<close> is a valid \<open>datetime\<close> at least one day after
  \<open>datetime.min\<close>, a detection call issues exactly four evidence fetches, all for
  \<open>request.system\<close>: a log summary and a metrics snapshot for \<open>d\<close>, and a log summary and
  a metrics snapshot for \<open>d\<close> minus one day, which is the same time of day on the
  preceding calendar day. This holds however the call ends.
\<close>

theorem detect_issues_four_fetches:
  assumes "datetime_min + timedelta_days 1 \<le> request_today env request"
    and "request_today env request \<le> datetime_max"
  shows "filter is_fetch (calls (detect_issues env request self))
           = [EvFetch LogSummary (system request) (request_today env request),
              EvFetch LogSummary (system request) (request_today env request - us_per_day),
              EvFetch Metrics (system request) (request_today env request),
              EvFetch Metrics (system request) (request_today env request - us_per_day)]
       \<and> day_of (request_today env request - us_per_day) = day_of (request_today env request) - 1
       \<and> time_of_day (request_today env request - us_per_day) = time_of_day (request_today env request)
       \<and> request_today env request = (case date request of Some d \<Rightarrow> d | None \<Rightarrow> clock_now env)"
proof -
  let ?t = "request_today env request"
  from detect_issues_calls [OF datetime_sub_one_day [OF assms], of self]
  obtain rest where c: "calls (detect_issues env request self)
            = detection_fetches (system request) ?t (?t - us_per_day) @ rest"
    and r: "rest = [] \<or> rest = [EvDetectionPrompt]
              \<or> (\<exists>p. rest = [EvDetectionPrompt, EvAnalyze p (get_detection_tools (tools self))])"
    by blast
  from r have "filter is_fetch rest = []" by auto
  with c have 1: "filter is_fetch (calls (detect_issues env request self))
      = detection_fetches (system request) ?t (?t - us_per_day)"
    by (simp add: filter_fetch_detection_fetches)
  have 2: "day_of (?t - us_per_day) = day_of ?t - 1"
    by (simp add: day_of_def us_per_day_def)
  have 3: "time_of_day (?t - us_per_day) = time_of_day ?t"
    by (simp add: time_of_day_def us_per_day_def)
  from 1 2 3 show ?thesis by (simp add: detection_fetches_def request_today_def)
qed

theorem detect_issues_four_fetches_witness:
  "datetime_min + timedelta_days 1 \<le> request_today scenario_env (scenario_request ISSUE_DETECTION)
   \<and> request_today scenario_env (scenario_request ISSUE_DETECTION) \<le> datetime_max
   \<and> filter is_fetch (calls (detect_issues scenario_env (scenario_request ISSUE_DETECTION) quiet_orchestrator))
       = [EvFetch LogSummary ''risk_management'' (738945 * 86400000000),
          EvFetch LogSummary ''risk_management'' (738944 * 86400000000),
          EvFetch Metrics ''risk_management'' (738945 * 86400000000),
          EvFetch Metrics ''risk_management'' (738944 * 86400000000)]
   \<and> day_of (738944 * 86400000000) = day_of (738945 * 86400000000) - 1"
proof -
  have h1: "datetime_min + timedelta_days 1 \<le> request_today scenario_env (scenario_request ISSUE_DETECTION)"
    by (simp add: run_defs scenario_defs)
  have h2: "request_today scenario_env (scenario_request ISSUE_DETECTION) \<le> datetime_max"
    by (simp add: run_defs scenario_defs)
  have s: "system (scenario_request ISSUE_DETECTION) = ''risk_management''"
    "request_today scenario_env (scenario_request ISSUE_DETECTION) = 738945 * 86400000000"
    by (simp_all add: scenario_request_def request_today_def march_first_def us_per_day_def)
  from detect_issues_four_fetches [OF h1 h2, of quiet_orchestrator] h1 h2 show ?thesis
    by (simp add: s us_per_day_def)
qed

text \<open>
  The claim as first stated, for every detection call, fails on the first representable
  day: for a request dated 0001-01-01T00:00:00 the preceding day is not a \<open>datetime\<close>,
  the subtraction raises \<open>OverflowError\<close>, and no fetch is issued.
\<close>

theorem detect_issues_first_day_counterexample:
  "outcome (detect_issues scenario_env first_day_request quiet_orchestrator) = Inl OverflowError
   \<and> filter is_fetch (calls (detect_issues scenario_env first_day_request quiet_orchestrator)) = []"
proof -
  have "datetime_sub (request_today scenario_env first_day_request) (timedelta_days 1) = Inl OverflowError"
    by (simp add: datetime_sub_def request_today_def first_day_request_def timedelta_days_def
        us_per_day_def datetime_min_def)
  from detect_issues_overflow [OF this] show ?thesis by (simp add: outcome_def calls_def)
qed

section \<open>The tool catalogs\<close>

text \<open>
  Claim C8. Every model call of the detection phase is handed exactly the detection
  catalog, and every model call of the diagnosis phase exactly the diagnosis catalog (each
  phase makes at most one model call). The detection catalog declares
  \<open>get_error_details\<close> and \<open>compare_metrics\<close>, the diagnosis catalog
  \<open>check_database_consistency\<close> and \<open>fetch_upstream_data\<close>; the catalogs do not depend on
  the registry they are read from, and they share no tool and no tool name.
\<close>

theorem model_calls_carry_the_phase_catalog:
  "(catalogs (calls (detect_issues env request self)) = []
      \<or> catalogs (calls (detect_issues env request self)) = [get_detection_tools (tools self)])
   \<and> (catalogs (calls (diagnose_issues env request issues self)) = []
      \<or> catalogs (calls (diagnose_issues env request issues self)) = [get_diagnosis_tools (tools self)])
   \<and> map tool_name (get_detection_tools reg)
        = [Inr (PStr ''get_error_details''), Inr (PStr ''compare_metrics'')]
   \<and> map tool_name (get_diagnosis_tools reg)
        = [Inr (PStr ''check_database_consistency''), Inr (PStr ''fetch_upstream_data'')]
   \<and> get_detection_tools reg = get_detection_tools reg'
   \<and> get_diagnosis_tools reg = get_diagnosis_tools reg'
   \<and> set (get_detection_tools reg) \<inter> set (get_diagnosis_tools reg') = {}
   \<and> set (map tool_name (get_detection_tools reg)) \<inter> set (map tool_name (get_diagnosis_tools reg')) = {}"
proof -
  have 1: "catalogs (calls (detect_issues env request self)) = []
      \<or> catalogs (calls (detect_issues env request self)) = [get_detection_tools (tools self)]"
  proof (cases "datetime_sub (request_today env request) (timedelta_days 1)")
    case (Inl e)
    from detect_issues_overflow [OF Inl] show ?thesis by (simp add: calls_def)
  next
    case (Inr y)
    from detect_issues_calls [OF Inr, of self] show ?thesis
      by (auto simp: catalogs_append catalogs_detection_fetches)
  qed
  have 2: "catalogs (calls (diagnose_issues env request issues self)) = []
      \<or> catalogs (calls (diagnose_issues env request issues self)) = [get_diagnosis_tools (tools self)]"
    by (simp add: diagnose_issues_run calls_def catalogs_append catalogs_directives
        split: sum.splits)
  have 3: "map tool_name (get_detection_tools reg)
        = [Inr (PStr ''get_error_details''), Inr (PStr ''compare_metrics'')]"
    by (simp add: get_detection_tools_def tool_name_def)
  have 4: "map tool_name (get_diagnosis_tools reg)
        = [Inr (PStr ''check_database_consistency''), Inr (PStr ''fetch_upstream_data'')]"
    by (simp add: get_diagnosis_tools_def tool_name_def)
  have 5: "get_detection_tools reg = get_detection_tools reg'"
    by (simp add: get_detection_tools_def)
  have 6: "get_diagnosis_tools reg = get_diagnosis_tools reg'"
    by (simp add: get_diagnosis_tools_def)
  have 7: "set (get_detection_tools reg) \<inter> set (get_diagnosis_tools reg') = {}"
    by (simp add: get_detection_tools_def get_diagnosis_tools_def)
  have 8: "set (map tool_name (get_detection_tools reg)) \<inter> set (map tool_name (get_diagnosis_tools reg')) = {}"
    by (simp add: get_detection_tools_def get_diagnosis_tools_def tool_name_def)
  from 1 2 3 4 5 6 7 8 show ?thesis by blast
qed

section \<open>The log summary\<close>

text \<open>
  Claim C9. For every system, date and parsed-log input, the fragment that
  \<open>get_log_summary\<close> returns carries under \<open>sample_errors\<close> the slice \<open>[:10]\<close> of the
  parsed logs' \<open>error_samples\<close>: a sequence of length at most 10.
\<close>

theorem log_summary_has_at_most_ten_sample_errors:
  assumes "get_log_summary dl sys d = Inr fragment"
  shows "\<exists>parsed_logs error_samples sample_errors k.
           bindE (get_log_file dl sys d) (parse_logs dl) = Inr parsed_logs
         \<and> py_getitem parsed_logs ''error_samples'' = Inr error_samples
         \<and> py_slice_to error_samples 10 = Inr sample_errors
         \<and> py_getitem fragment ''sample_errors'' = Inr sample_errors
         \<and> py_len sample_errors = Inr k \<and> k \<le> 10"
proof -
  from assms obtain parsed_logs es se where p: "bindE (get_log_file dl sys d) (parse_logs dl) = Inr parsed_logs"
    and g: "py_getitem parsed_logs ''error_samples'' = Inr es"
    and s: "py_slice_to es 10 = Inr se"
    and f: "py_getitem fragment ''sample_errors'' = Inr se"
    unfolding get_log_summary_def bindE_Inr_iff by auto
  from py_slice_to_len [OF s] p g s f show ?thesis by blast
qed

theorem log_summary_has_at_most_ten_sample_errors_witness:
  "get_log_summary noisy_data_layer ''pnl_system'' march_first
     = Inr (PDict
         [(''error_count'', PInt 12), (''warning_count'', PInt 3),
          (''critical_events'', PList [PStr ''disk full'']),
          (''performance_metrics'', PDict [(''latency_ms'', PInt 950)]),
          (''sample_errors'', PList
             [PInt 1, PInt 2, PInt 3, PInt 4, PInt 5, PInt 6, PInt 7, PInt 8, PInt 9, PInt 10])])
   \<and> (\<exists>sample_errors k.
         py_getitem (PDict
           [(''error_count'', PInt 12), (''warning_count'', PInt 3),
            (''critical_events'', PList [PStr ''disk full'']),
            (''performance_metrics'', PDict [(''latency_ms'', PInt 950)]),
            (''sample_errors'', PList
               [PInt 1, PInt 2, PInt 3, PInt 4, PInt 5, PInt 6, PInt 7, PInt 8, PInt 9, PInt 10])])
           ''sample_errors'' = Inr sample_errors
       \<and> py_len sample_errors = Inr k \<and> k \<le> 10)"
proof -
  have h: "get_log_summary noisy_data_layer ''pnl_system'' march_first
     = Inr (PDict
         [(''error_count'', PInt 12), (''warning_count'', PInt 3),
          (''critical_events'', PList [PStr ''disk full'']),
          (''performance_metrics'', PDict [(''latency_ms'', PInt 950)]),
          (''sample_errors'', PList
             [PInt 1, PInt 2, PInt 3, PInt 4, PInt 5, PInt 6, PInt 7, PInt 8, PInt 9, PInt 10])])"
    by (simp add: get_log_summary_def bindE_def noisy_data_layer_def steady_data_layer_def
        noisy_logs_def)
  from log_summary_has_at_most_ten_sample_errors [OF h] h show ?thesis by blast
qed

section \<open>The response interpreter is fail-soft\<close>

text \<open>
  Claim C6. For every model output the interpreters return a well-formed record, and never
  raise: \<open>parse_detection\<close> gives \<open>has_issues = False\<close> on an output that does not conform,
  \<open>parse_diagnosis\<close> gives the confidence \<open>unknown\<close> on an output that does not conform,
  and both keep the output verbatim.
\<close>

theorem interpreters_fail_soft:
  "is_detection_result (parse_detection out)
   \<and> (\<not> conforms_detection out \<longrightarrow>
        py_getitem (parse_detection out) ''has_issues'' = Inr (PBool False))
   \<and> py_getitem (parse_detection out) ''raw_model_output'' = Inr out
   \<and> is_diagnosis_result (parse_diagnosis out)
   \<and> (\<not> conforms_diagnosis out \<longrightarrow>
        py_getitem (parse_diagnosis out) ''confidence'' = Inr (PStr ''unknown''))
   \<and> py_getitem (parse_diagnosis out) ''raw_model_output'' = Inr out"
  by (auto simp: is_detection_result_def is_diagnosis_result_def parse_detection_def
      parse_diagnosis_def conforms_detection_def conforms_diagnosis_def
      get_bool_def get_list_def get_str_def split: option.splits)

theorem interpreters_fail_soft_witness:
  "\<not> conforms_detection (PStr ''I am not sure'')
   \<and> \<not> conforms_diagnosis (PStr ''I am not sure'')
   \<and> parse_detection (PStr ''I am not sure'')
       = PDict [(''has_issues'', PBool False), (''issues'', PList []),
                (''raw_model_output'', PStr ''I am not sure'')]
   \<and> py_getitem (parse_detection (PStr ''I am not sure'')) ''has_issues'' = Inr (PBool False)
   \<and> py_getitem (parse_diagnosis (PStr ''I am not sure'')) ''confidence'' = Inr (PStr ''unknown'')
   \<and> py_getitem (parse_diagnosis (PStr ''I am not sure'')) ''raw_model_output''
       = Inr (PStr ''I am not sure'')"
  using interpreters_fail_soft [of "PStr ''I am not sure''"]
  by (simp add: conforms_detection_def conforms_diagnosis_def parse_detection_def
      get_bool_def get_list_def get_str_def)

section \<open>Custom queries\<close>

text \<open>
  Claim C3. A \<open>CUSTOM_QUERY\<close> request without a query text is rejected with
  \<open>InvalidRequest\<close> at once: no fetch and no model call is issued, and the orchestrator is
  left as it was.
\<close>

theorem custom_query_without_text_is_rejected:
  assumes "mode request = CUSTOM_QUERY" and "specific_query request = None"
  shows "execute env request self = (Inl InvalidRequest, [], self)"
  using assms by (simp add: execute_def handle_custom_query_def lift_def)

theorem custom_query_without_text_is_rejected_witness:
  "mode (scenario_request CUSTOM_QUERY) = CUSTOM_QUERY
   \<and> specific_query (scenario_request CUSTOM_QUERY) = None
   \<and> execute scenario_env (scenario_request CUSTOM_QUERY) quiet_orchestrator
       = (Inl InvalidRequest, [], quiet_orchestrator)"
proof -
  have h1: "mode (scenario_request CUSTOM_QUERY) = CUSTOM_QUERY"
    and h2: "specific_query (scenario_request CUSTOM_QUERY) = None"
    by (simp_all add: scenario_request_def)
  from custom_query_without_text_is_rejected [OF h1 h2] h1 h2 show ?thesis by simp
qed

text \<open>
  Claim C2. For a \<open>CUSTOM_QUERY\<close> request with a query text, when the model answers,
  \<open>execute\<close> makes that one model call and returns a result record that holds the answer
  verbatim and none of the detection or diagnosis fields.
\<close>

theorem custom_query_returns_the_answer:
  assumes "mode request = CUSTOM_QUERY"
    and "specific_query request = Some query"
    and "llm_client self (build_custom_prompt env (system request) query)
           (general_tools (tools self)) = Inr answer"
  shows "execute env request self
           = (Inr (PDict [(''answer'', answer)]),
              [EvAnalyze (build_custom_prompt env (system request) query) (general_tools (tools self))],
              self)
       \<and> py_getitem (PDict [(''answer'', answer)]) ''answer'' = Inr answer
       \<and> list_all (\<lambda>field. isl (py_getitem (PDict [(''answer'', answer)]) field)) result_fields"
  using assms
  by (simp add: execute_def handle_custom_query_def bind_def call_analyze_def ret_def
      result_fields_def)

theorem custom_query_returns_the_answer_witness:
  "mode volume_query = CUSTOM_QUERY
   \<and> specific_query volume_query = Some ''why did volume drop yesterday''
   \<and> llm_client alarm_orchestrator ''pnl_system: why did volume drop yesterday''
        (general_tools (tools alarm_orchestrator)) = Inr (PStr ''the feed was late'')
   \<and> outcome (execute scenario_env volume_query alarm_orchestrator)
       = Inr (PDict [(''answer'', PStr ''the feed was late'')])
   \<and> catalogs (calls (execute scenario_env volume_query alarm_orchestrator))
       = [general_tools (tools alarm_orchestrator)]"
proof -
  have h1: "mode volume_query = CUSTOM_QUERY"
    and h2: "specific_query volume_query = Some ''why did volume drop yesterday''"
    by (simp_all add: volume_query_def)
  have p: "build_custom_prompt scenario_env (system volume_query) ''why did volume drop yesterday''
      = ''pnl_system: why did volume drop yesterday''"
    by (simp add: scenario_env_def volume_query_def)
  have h3: "llm_client alarm_orchestrator
      (build_custom_prompt scenario_env (system volume_query) ''why did volume drop yesterday'')
      (general_tools (tools alarm_orchestrator)) = Inr (PStr ''the feed was late'')"
    unfolding p by (simp add: alarm_orchestrator_def AgentOrchestrator_init_def alarm_llm_def)
  from custom_query_returns_the_answer [OF h1 h2 h3] h1 h2 h3 show ?thesis
    by (simp add: p outcome_def calls_def)
qed

section \<open>Diagnosis with a failed directive\<close>

text \<open>
  Claim C5. In the diagnosis phase a directive whose evidence fetch fails does not abort
  the request: the plan execution returns one outcome per directive with a placeholder for
  the failed one, the diagnosis prompt is built from these outcomes, and when the planner,
  the prompt builder and the model return, \<open>diagnose_issues\<close> gives the diagnosis record
  and a \<open>FULL_DIAGNOSIS\<close> request completes with the detection result merged with it.
\<close>

theorem diagnosis_tolerates_a_failed_directive:
  assumes "mode request = FULL_DIAGNOSIS"
    and "outcome (detect_issues env request self) = Inr issues"
    and "py_getitem issues ''has_issues'' = Inr flag"
    and "truthy flag"
    and "create_diagnostic_plan env issues = Inr plan"
    and "build_diagnosis_prompt env issues
           (map (\<lambda>d. (d, directive_outcome (data_layer self) (system request) d)) plan) = Inr prompt"
    and "llm_client self prompt (get_diagnosis_tools (tools self)) = Inr out"
    and "parse_diagnosis_response env out = Inr (parse_diagnosis out)"
    and "i < length plan"
    and "isl (fetch_directive (data_layer self) (system request) (plan ! i))"
  shows "outcome (execute_diagnostic_plan plan (system request) self)
           = Inr (map (\<lambda>d. (d, directive_outcome (data_layer self) (system request) d)) plan)
       \<and> map (\<lambda>d. (d, directive_outcome (data_layer self) (system request) d)) plan ! i
           = (plan ! i, Placeholder)
       \<and> outcome (diagnose_issues env request issues self) = Inr (parse_diagnosis out)
       \<and> is_diagnosis_result (parse_diagnosis out)
       \<and> calls (diagnose_issues env request issues self)
           = EvPlan # map EvDirective plan
               @ [EvDiagnosisPrompt, EvAnalyze prompt (get_diagnosis_tools (tools self))]
       \<and> (\<exists>merged. py_merge issues (parse_diagnosis out) = Inr merged
             \<and> outcome (execute env request self) = Inr merged)"
proof -
  have 1: "outcome (execute_diagnostic_plan plan (system request) self)
           = Inr (map (\<lambda>d. (d, directive_outcome (data_layer self) (system request) d)) plan)"
    by (simp add: execute_diagnostic_plan_def outcome_def)
  from assms(9,10) have 2: "map (\<lambda>d. (d, directive_outcome (data_layer self) (system request) d)) plan ! i
           = (plan ! i, Placeholder)"
    by (auto simp: directive_outcome_def split: sum.splits)
  from assms(5-8) have 3: "diagnose_issues env request issues self
      = (Inr (parse_diagnosis out),
         EvPlan # map EvDirective plan
               @ [EvDiagnosisPrompt, EvAnalyze prompt (get_diagnosis_tools (tools self))], self)"
    by (simp add: diagnose_issues_run)
  from py_getitem_is_dict [OF assms(3)] parse_diagnosis_is_dict [of out]
  obtain merged where m: "py_merge issues (parse_diagnosis out) = Inr merged" by auto
  from detect_issues_success [OF assms(2)] obtain tr where
    d: "detect_issues env request self = (Inr issues, tr, self)" by blast
  from assms(1,3,4) d 3 m have 5: "outcome (execute env request self) = Inr merged"
    by (simp add: execute_def bind_def lift_def outcome_def)
  from 1 2 3 m 5 parse_diagnosis_is_result [of out] show ?thesis
    by (simp add: outcome_def calls_def)
qed

theorem diagnosis_tolerates_a_failed_directive_witness:
  "outcome (detect_issues scenario_env (scenario_request FULL_DIAGNOSIS) alarm_orchestrator)
     = Inr (parse_detection alarm_answer)
   \<and> py_getitem (parse_detection alarm_answer) ''has_issues'' = Inr (PBool True)
   \<and> fetch_directive (data_layer alarm_orchestrator) ''risk_management''
        (UpstreamData ''feed'' march_first) = Inl (EvidenceUnavailable ''feed'')
   \<and> outcome (execute_diagnostic_plan
        [TableConsistency ''trades'' march_first, UpstreamData ''feed'' march_first]
        ''risk_management'' alarm_orchestrator)
       = Inr [(TableConsistency ''trades'' march_first, Available (PDict [(''total_records'', PInt 7)])),
              (UpstreamData ''feed'' march_first, Placeholder)]
   \<and> outcome (diagnose_issues scenario_env (scenario_request FULL_DIAGNOSIS)
        (parse_detection alarm_answer) alarm_orchestrator)
       = Inr (parse_diagnosis (PStr ''the feed was late''))
   \<and> outcome (execute scenario_env (scenario_request FULL_DIAGNOSIS) alarm_orchestrator)
       = Inr (PDict
           [(''has_issues'', PBool True), (''issues'', PList [PStr ''error_rate_spike'']),
            (''raw_model_output'', PStr ''the feed was late''), (''root_cause'', PStr []),
            (''confidence'', PStr ''unknown''), (''supporting_evidence'', PList [])])"
proof -
  let ?req = "scenario_request FULL_DIAGNOSIS"
  let ?plan = "[TableConsistency ''trades'' march_first, UpstreamData ''feed'' march_first]"
  have s: "system ?req = ''risk_management''" by (simp add: scenario_request_def)
  have h1: "mode ?req = FULL_DIAGNOSIS" by (simp add: scenario_request_def)
  have h2: "outcome (detect_issues scenario_env ?req alarm_orchestrator)
     = Inr (parse_detection alarm_answer)"
    by (simp add: run_defs scenario_defs)
  have h3: "py_getitem (parse_detection alarm_answer) ''has_issues'' = Inr (PBool True)"
    by (simp add: run_defs scenario_defs)
  have h4: "truthy (PBool True)" by simp
  have h5: "create_diagnostic_plan scenario_env (parse_detection alarm_answer) = Inr ?plan"
    by (simp add: scenario_env_def)
  have h6: "build_diagnosis_prompt scenario_env (parse_detection alarm_answer)
           (map (\<lambda>d. (d, directive_outcome (data_layer alarm_orchestrator) (system ?req) d)) ?plan)
         = Inr ''diagnose''"
    by (simp add: scenario_env_def)
  have h7: "llm_client alarm_orchestrator ''diagnose'' (get_diagnosis_tools (tools alarm_orchestrator))
      = Inr (PStr ''the feed was late'')"
    by (simp add: alarm_orchestrator_def AgentOrchestrator_init_def alarm_llm_def)
  have h8: "parse_diagnosis_response scenario_env (PStr ''the feed was late'')
      = Inr (parse_diagnosis (PStr ''the feed was late''))"
    by (simp add: scenario_env_def)
  have h9: "1 < length ?plan" by simp
  have f: "fetch_directive (data_layer alarm_orchestrator) ''risk_management''
        (UpstreamData ''feed'' march_first) = Inl (EvidenceUnavailable ''feed'')"
    by (simp add: alarm_orchestrator_def AgentOrchestrator_init_def steady_data_layer_def)
  have h10: "isl (fetch_directive (data_layer alarm_orchestrator) (system ?req) (?plan ! 1))"
    by (simp add: s f)
  have o: "map (\<lambda>d. (d, directive_outcome (data_layer alarm_orchestrator) ''risk_management'' d)) ?plan
      = [(TableConsistency ''trades'' march_first, Available (PDict [(''total_records'', PInt 7)])),
         (UpstreamData ''feed'' march_first, Placeholder)]"
    by (simp add: directive_outcome_def alarm_orchestrator_def AgentOrchestrator_init_def
        steady_data_layer_def)
  have m: "py_merge (parse_detection alarm_answer) (parse_diagnosis (PStr ''the feed was late''))
      = Inr (PDict
           [(''has_issues'', PBool True), (''issues'', PList [PStr ''error_rate_spike'']),
            (''raw_model_output'', PStr ''the feed was late''), (''root_cause'', PStr []),
            (''confidence'', PStr ''unknown''), (''supporting_evidence'', PList [])])"
    by (simp add: parse_detection_def parse_diagnosis_def get_bool_def get_list_def get_str_def
        alarm_answer_def)
  from diagnosis_tolerates_a_failed_directive [OF h1 h2 h3 h4 h5 h6 h7 h8 h9 h10]
    h2 h3 f o show ?thesis
    by (simp add: s m)
qed

end
